theory Spec2Isabelle
  imports Complex_Main
begin

section \<open>Data model of the flat-plate surrogate block\<close>

text \<open>
  The block of \<^verbatim>\<open>flat_plate_surrogate.py\<close> is a Pyomo/IDAES process block: an object
  whose attributes are variables, constraints, a surrogate and plain Python values.
  Variables and constraints are identified by their attribute name.
\<close>

datatype pyunit = MW | hour | C | kWh | year | kW

text \<open>
  Numeric literals of the source that are stored but never computed with:
  \<open>PyInt n\<close> is the integer literal \<open>n\<close>, \<open>PyFloat m e\<close> the float literal
  written \<open>m\<close>e\<open>e\<close> (so \<^verbatim>\<open>1e-2\<close> is \<open>PyFloat 1 (- 2)\<close> and \<^verbatim>\<open>0.8\<close> is
  \<open>PyFloat 8 (- 1)\<close>).
\<close>

datatype pynum = PyInt int | PyFloat int int

text \<open>A \<^verbatim>\<open>Var(initialize=, bounds=, units=, doc=)\<close>; \<open>bounds\<close> is absent or a closed interval.\<close>

record var =
  initialize :: int
  bounds :: "(int \<times> int) option"
  units :: pyunit
  doc :: string

text \<open>
  Constraint bodies. \<open>Convert n u u'\<close> is
  \<^verbatim>\<open>pyunits.convert(n * pyunits.u, to_units=pyunits.u')\<close>.
\<close>

datatype expr = VarRef string | Convert int pyunit pyunit | Prod expr expr

datatype constraint = Equality expr expr

text \<open>The loaded surrogate object, identified by the artifact it was loaded from.\<close>

datatype surrogate = PysmoSurrogate string

text \<open>
  A \<^verbatim>\<open>SurrogateBlock(concrete=True)\<close>; \<open>model\<close> is what \<^verbatim>\<open>build_model\<close> bound:
  the surrogate with its input and output variables.
\<close>

record surrogate_block =
  concrete :: bool
  model :: "(surrogate \<times> string list \<times> string list) option"

record block =
  tech_type :: "string option"
  vars :: "string \<rightharpoonup> var"
  constraints :: "string \<rightharpoonup> constraint"
  surrogate_inputs :: "string list"
  surrogate_outputs :: "string list"
  input_labels :: "string list"
  output_labels :: "string list"
  surrogate_file :: "string option"
  surrogate_blk :: "surrogate_block option"
  surrogate :: "surrogate option"
  dataset_filename :: "string option"
  n_samples :: "int option"
  training_fraction :: "pynum option"
  scaling_factor :: "string \<rightharpoonup> pynum"

section \<open>The world outside the block\<close>

text \<open>
  \<^verbatim>\<open>sys.stdout\<close> is a global; a \<^verbatim>\<open>StringIO()\<close> is a new object, numbered by the
  allocation counter. The calls into the host framework that matter are recorded in a trace.
\<close>

datatype stream = Console | StringIO nat

datatype event =
  LoadFromFile string
  | BuildModel
  | Warning string
  | SetScalingFactor string pynum

record world =
  sys_stdout :: stream
  stringio_count :: nat
  trace :: "event list"

datatype py_error = AttributeError string | HostError string

datatype outcome = Returned | Raised py_error

text \<open>
  The host framework as seen from this file: the base class's \<^verbatim>\<open>build\<close>
  (\<^verbatim>\<open>SolarEnergyBase\<close>, which is not part of this file), the surrogate loader and the
  surrogate block's \<^verbatim>\<open>build_model\<close>. Each may raise.
\<close>

record host =
  super_build :: "block \<Rightarrow> world \<Rightarrow> outcome \<times> block \<times> world"
  load_from_file :: "string \<Rightarrow> py_error + surrogate"
  build_model :: "surrogate \<Rightarrow> string list \<Rightarrow> string list \<Rightarrow> py_error option"

section \<open>Path helpers\<close>

text \<open>\<^verbatim>\<open>os.path.dirname\<close> and \<^verbatim>\<open>os.path.join\<close> (two arguments) on POSIX paths.\<close>

definition os_path_dirname :: "string \<Rightarrow> string" where
  "os_path_dirname p =
     (let head = rev (dropWhile (\<lambda>c. c \<noteq> CHR ''/'') (rev p))
      in if head \<noteq> [] \<and> \<not> list_all (\<lambda>c. c = CHR ''/'') head
         then rev (dropWhile (\<lambda>c. c = CHR ''/'') (rev head))
         else head)"

definition os_path_join :: "string \<Rightarrow> string \<Rightarrow> string" where
  "os_path_join a b =
     (if take 1 b = ''/'' then b
      else if a = [] \<or> last a = CHR ''/'' then a @ b
      else a @ ''/'' @ b)"

section \<open>build\<close>

definition build :: "host \<Rightarrow> string \<Rightarrow> block \<Rightarrow> world \<Rightarrow> outcome \<times> block \<times> world" where
  "build h file self0 w0 =
     (case super_build h self0 w0 of
        (Raised e, self, w) \<Rightarrow> (Raised e, self, w)
      | (Returned, self, w) \<Rightarrow>
          let self = self\<lparr>tech_type := Some ''flat_plate''\<rparr>;
              self = self\<lparr>vars := (vars self)(''heat_load'' \<mapsto>
                       \<lparr>initialize = 1000, bounds = Some (100, 1000), units = MW,
                        doc = ''Rated plant heat capacity in MWt''\<rparr>)\<rparr>;
              self = self\<lparr>vars := (vars self)(''hours_storage'' \<mapsto>
                       \<lparr>initialize = 20, bounds = Some (0, 26), units = hour,
                        doc = ''Rated plant hours of storage''\<rparr>)\<rparr>;
              self = self\<lparr>vars := (vars self)(''temperature_hot'' \<mapsto>
                       \<lparr>initialize = 70, bounds = Some (50, 100), units = C,
                        doc = ''Hot outlet temperature''\<rparr>)\<rparr>;
              self = self\<lparr>vars := (vars self)(''heat_annual'' \<mapsto>
                       \<lparr>initialize = 1000, bounds = None, units = kWh,
                        doc = ''Annual heat generated by flat plate''\<rparr>)\<rparr>;
              self = self\<lparr>vars := (vars self)(''electricity_annual'' \<mapsto>
                       \<lparr>initialize = 20, bounds = None, units = kWh,
                        doc = ''Annual electricity consumed by flat plate''\<rparr>)\<rparr>;
              stream = StringIO (stringio_count w);
              w = w\<lparr>stringio_count := Suc (stringio_count w)\<rparr>;
              oldstdout = sys_stdout w;
              w = w\<lparr>sys_stdout := stream\<rparr>;
              self = self\<lparr>surrogate_inputs := [''heat_load'', ''hours_storage'', ''temperature_hot'']\<rparr>;
              self = self\<lparr>surrogate_outputs := [''heat_annual'', ''electricity_annual'']\<rparr>;
              self = self\<lparr>input_labels := [''heat_load'', ''hours_storage'', ''temperature_hot'']\<rparr>;
              self = self\<lparr>output_labels := [''heat_annual'', ''electricity_annual'']\<rparr>;
              path = os_path_join (os_path_dirname file) ''flat_plate_surrogate.json'';
              self = self\<lparr>surrogate_file := Some path\<rparr>;
              self = self\<lparr>surrogate_blk := Some \<lparr>concrete = True, model = None\<rparr>\<rparr>;
              w = w\<lparr>trace := trace w @ [LoadFromFile path]\<rparr>
          in (case load_from_file h path of
                Inl e \<Rightarrow> (Raised e, self, w)
              | Inr s \<Rightarrow>
                  let self = self\<lparr>surrogate := Some s\<rparr>;
                      w = w\<lparr>trace := trace w @ [BuildModel]\<rparr>
                  in (case build_model h s (surrogate_inputs self) (surrogate_outputs self) of
                        Some e \<Rightarrow> (Raised e, self, w)
                      | None \<Rightarrow>
                          let self = self\<lparr>surrogate_blk := Some \<lparr>concrete = True,
                                model = Some (s, surrogate_inputs self, surrogate_outputs self)\<rparr>\<rparr>
                          in (case vars self ''heat'' of
                                None \<Rightarrow> (Raised (AttributeError ''heat''), self, w)
                              | Some _ \<Rightarrow>
                                  let self = self\<lparr>constraints := (constraints self)(''heat_constraint'' \<mapsto>
                                        Equality (VarRef ''heat_annual'')
                                          (Prod (VarRef ''heat'') (Convert 1 year hour)))\<rparr>
                                  in (case vars self ''electricity'' of
                                        None \<Rightarrow> (Raised (AttributeError ''electricity''), self, w)
                                      | Some _ \<Rightarrow>
                                          let self = self\<lparr>constraints := (constraints self)(''electricity_constraint'' \<mapsto>
                                                Equality (VarRef ''electricity_annual'')
                                                  (Prod (VarRef ''electricity'') (Convert 1 year hour)))\<rparr>;
                                              w = w\<lparr>sys_stdout := oldstdout\<rparr>;
                                              self = self\<lparr>dataset_filename := Some
                                                (os_path_join (os_path_dirname file) ''data/flat_plate_data.pkl'')\<rparr>;
                                              self = self\<lparr>n_samples := Some 100\<rparr>;
                                              self = self\<lparr>training_fraction := Some (PyFloat 8 (- 1))\<rparr>
                                          in (Returned, self, w))))))"

section \<open>calculate_scaling_factors\<close>

text \<open>
  The scaling-factor suffix of the block, read and written through
  \<^verbatim>\<open>iscale.get_scaling_factor\<close> and \<^verbatim>\<open>iscale.set_scaling_factor\<close>.
  Called without a default, the getter returns the stored factor or \<^verbatim>\<open>None\<close>; called
  with a default it returns the stored factor or the default, and logs a warning for a
  missing factor when \<^verbatim>\<open>warning=True\<close>.
\<close>

definition get_scaling_factor :: "block \<Rightarrow> string \<Rightarrow> pynum option" where
  "get_scaling_factor self c = scaling_factor self c"

definition get_scaling_factor_default ::
  "block \<Rightarrow> world \<Rightarrow> string \<Rightarrow> pynum \<Rightarrow> bool \<Rightarrow> pynum \<times> world" where
  "get_scaling_factor_default self w c dflt warning =
     (case scaling_factor self c of
        Some sf \<Rightarrow> (sf, w)
      | None \<Rightarrow> (dflt, if warning then w\<lparr>trace := trace w @ [Warning c]\<rparr> else w))"

definition set_scaling_factor :: "block \<Rightarrow> world \<Rightarrow> string \<Rightarrow> pynum \<Rightarrow> block \<times> world" where
  "set_scaling_factor self w c v =
     (self\<lparr>scaling_factor := (scaling_factor self)(c \<mapsto> v)\<rparr>,
      w\<lparr>trace := trace w @ [SetScalingFactor c v]\<rparr>)"

text \<open>
  One \<^verbatim>\<open>if iscale.get_scaling_factor(self.c) is None: ...\<close> block of
  \<^verbatim>\<open>calculate_scaling_factors\<close>. Reading the attribute \<^verbatim>\<open>self.c\<close> raises when the
  block has no such variable.
\<close>

definition scaling_block ::
  "string \<Rightarrow> pynum \<Rightarrow> bool \<Rightarrow> block \<Rightarrow> world \<Rightarrow> outcome \<times> block \<times> world" where
  "scaling_block c dflt warning self w =
     (case vars self c of
        None \<Rightarrow> (Raised (AttributeError c), self, w)
      | Some _ \<Rightarrow>
          if get_scaling_factor self c = None
          then (let (sf, w) = get_scaling_factor_default self w c dflt warning;
                    (self, w) = set_scaling_factor self w c sf
                in (Returned, self, w))
          else (Returned, self, w))"

text \<open>Sequencing: a raised exception ends the method with the state reached so far.\<close>

fun and_then ::
  "outcome \<times> block \<times> world \<Rightarrow> (block \<Rightarrow> world \<Rightarrow> outcome \<times> block \<times> world)
     \<Rightarrow> outcome \<times> block \<times> world" where
  "and_then (Returned, self, w) f = f self w"
| "and_then (Raised e, self, w) f = (Raised e, self, w)"

definition calculate_scaling_factors :: "block \<Rightarrow> world \<Rightarrow> outcome \<times> block \<times> world" where
  "calculate_scaling_factors self w =
     and_then (and_then (and_then (and_then (and_then (and_then
       (scaling_block ''hours_storage'' (PyInt 1) False self w)
       (scaling_block ''heat_load'' (PyFloat 1 (- 2)) True))
       (scaling_block ''temperature_hot'' (PyFloat 1 (- 1)) True))
       (scaling_block ''heat_annual'' (PyFloat 1 (- 4)) True))
       (scaling_block ''heat'' (PyFloat 1 (- 4)) True))
       (scaling_block ''electricity_annual'' (PyFloat 1 (- 3)) True))
       (scaling_block ''electricity'' (PyFloat 1 (- 3)) True)"

section \<open>initialize_build\<close>

definition initialize_build :: "block \<Rightarrow> world \<Rightarrow> outcome \<times> block \<times> world" where
  "initialize_build self w = (Returned, self, w)"

section \<open>Meaning of the constraints\<close>




section \<open>Observing a run\<close>

text \<open>The events a call appended to the trace, and two classes of events.\<close>

definition new_events :: "world \<Rightarrow> world \<Rightarrow> event list" where
  "new_events w w' = drop (length (trace w)) (trace w')"

fun is_load :: "event \<Rightarrow> bool" where
  "is_load (LoadFromFile p) = True"
| "is_load e = False"

fun sets_factor_of :: "string \<Rightarrow> event \<Rightarrow> bool" where
  "sets_factor_of c (SetScalingFactor c' v) = (c' = c)"
| "sets_factor_of c e = False"

text \<open>A sequence of scaling blocks given as a table of variable, default and warning flag.\<close>

fun run_blocks ::
  "(string \<times> pynum \<times> bool) list \<Rightarrow> block \<Rightarrow> world \<Rightarrow> outcome \<times> block \<times> world" where
  "run_blocks [] self w = (Returned, self, w)"
| "run_blocks ((c, d, warning) # rest) self w =
     and_then (scaling_block c d warning self w) (run_blocks rest)"

definition scaling_table :: "(string \<times> pynum \<times> bool) list" where
  "scaling_table =
     [(''hours_storage'', PyInt 1, False),
      (''heat_load'', PyFloat 1 (- 2), True),
      (''temperature_hot'', PyFloat 1 (- 1), True),
      (''heat_annual'', PyFloat 1 (- 4), True),
      (''heat'', PyFloat 1 (- 4), True),
      (''electricity_annual'', PyFloat 1 (- 3), True),
      (''electricity'', PyFloat 1 (- 3), True)]"

text \<open>The variables \<^verbatim>\<open>calculate_scaling_factors\<close> touches, in the order of the source.\<close>

definition scaled_vars :: "string list" where
  "scaled_vars =
     [''hours_storage'', ''heat_load'', ''temperature_hot'', ''heat_annual'', ''heat'',
      ''electricity_annual'', ''electricity'']"

section \<open>A concrete host and block\<close>

definition empty_block :: block where
  "empty_block =
     \<lparr>tech_type = None, vars = Map.empty, constraints = Map.empty,
      surrogate_inputs = [], surrogate_outputs = [], input_labels = [], output_labels = [],
      surrogate_file = None, surrogate_blk = None, surrogate = None,
      dataset_filename = None, n_samples = None, training_fraction = None,
      scaling_factor = Map.empty\<rparr>"

definition console_world :: world where
  "console_world = \<lparr>sys_stdout = Console, stringio_count = 0, trace = []\<rparr>"

text \<open>
  Modelled from the spec: \<^verbatim>\<open>SolarEnergyBase.build\<close> is not in this file. The spec says
  that \<open>heat\<close> and \<open>electricity\<close> are the base class's per-unit-time quantities and
  that decision and state variables are bounded, with units and an initial guess.
\<close>

definition solar_energy_base_build :: "block \<Rightarrow> world \<Rightarrow> outcome \<times> block \<times> world" where
  "solar_energy_base_build self w =
     (let self = self\<lparr>vars := (vars self)(''electricity'' \<mapsto>
                  \<lparr>initialize = 0, bounds = Some (0, 1000000), units = kW,
                   doc = ''Electricity''\<rparr>)\<rparr>;
          self = self\<lparr>vars := (vars self)(''heat'' \<mapsto>
                  \<lparr>initialize = 0, bounds = Some (0, 1000000), units = kW,
                   doc = ''Heat''\<rparr>)\<rparr>
      in (Returned, self, w))"

definition module_file :: string where
  "module_file = ''/pkg/flat_plate/flat_plate_surrogate.py''"

text \<open>A host whose file system holds the artifact beside the module and nothing else.\<close>

definition good_host :: host where
  "good_host =
     \<lparr>super_build = solar_energy_base_build,
      load_from_file = (\<lambda>p. if p = ''/pkg/flat_plate/flat_plate_surrogate.json''
                             then Inr (PysmoSurrogate p)
                             else Inl (HostError ''FileNotFoundError'')),
      build_model = (\<lambda>s ins outs. None)\<rparr>"

text \<open>A host without the artifact.\<close>

definition missing_file_host :: host where
  "missing_file_host =
     \<lparr>super_build = solar_energy_base_build,
      load_from_file = (\<lambda>p. Inl (HostError ''FileNotFoundError'')),
      build_model = (\<lambda>s ins outs. None)\<rparr>"

text \<open>A host whose base class declares nothing.\<close>

definition bare_host :: host where
  "bare_host =
     \<lparr>super_build = (\<lambda>self w. (Returned, self, w)),
      load_from_file = (\<lambda>p. Inr (PysmoSurrogate p)),
      build_model = (\<lambda>s ins outs. None)\<rparr>"

text \<open>The block and the world that the build on the good host leaves behind.\<close>

definition example_block :: block where
  "example_block = fst (snd (build good_host module_file empty_block console_world))"

definition example_world :: world where
  "example_world = snd (snd (build good_host module_file empty_block console_world))"

text \<open>A stream object exists in a world when it is the console or was allocated before.\<close>

fun allocated :: "world \<Rightarrow> stream \<Rightarrow> bool" where
  "allocated w Console = True"
| "allocated w (StringIO n) = (n < stringio_count w)"

text \<open>Of a list of variable names, those that the block declares with bounds.\<close>

definition bounded_names :: "block \<Rightarrow> string list \<Rightarrow> string list" where
  "bounded_names self cs =
     filter (\<lambda>c. case vars self c of None \<Rightarrow> False | Some v \<Rightarrow> bounds v \<noteq> None) cs"

section \<open>Facts about build\<close>

text \<open>What a build that returns has done, field by field.\<close>

lemma build_Returned_fields:
  assumes "build h file self0 w0 = (Returned, self', w')"
  shows "\<exists>self1 w1 s.
     super_build h self0 w0 = (Returned, self1, w1) \<and>
     load_from_file h (os_path_join (os_path_dirname file) ''flat_plate_surrogate.json'') = Inr s \<and>
     build_model h s [''heat_load'', ''hours_storage'', ''temperature_hot'']
        [''heat_annual'', ''electricity_annual''] = None \<and>
     vars self1 ''heat'' \<noteq> None \<and> vars self1 ''electricity'' \<noteq> None \<and>
     self' = self1\<lparr>tech_type := Some ''flat_plate'',
        vars := (vars self1)(''heat_load'' \<mapsto>
                       \<lparr>initialize = 1000, bounds = Some (100, 1000), units = MW,
                        doc = ''Rated plant heat capacity in MWt''\<rparr>,
                 ''hours_storage'' \<mapsto>
                       \<lparr>initialize = 20, bounds = Some (0, 26), units = hour,
                        doc = ''Rated plant hours of storage''\<rparr>,
                 ''temperature_hot'' \<mapsto>
                       \<lparr>initialize = 70, bounds = Some (50, 100), units = C,
                        doc = ''Hot outlet temperature''\<rparr>,
                 ''heat_annual'' \<mapsto>
                       \<lparr>initialize = 1000, bounds = None, units = kWh,
                        doc = ''Annual heat generated by flat plate''\<rparr>,
                 ''electricity_annual'' \<mapsto>
                       \<lparr>initialize = 20, bounds = None, units = kWh,
                        doc = ''Annual electricity consumed by flat plate''\<rparr>),
        constraints := (constraints self1)(''heat_constraint'' \<mapsto>
             Equality (VarRef ''heat_annual'') (Prod (VarRef ''heat'') (Convert 1 year hour)),
             ''electricity_constraint'' \<mapsto>
             Equality (VarRef ''electricity_annual'') (Prod (VarRef ''electricity'') (Convert 1 year hour))),
        surrogate_inputs := [''heat_load'', ''hours_storage'', ''temperature_hot''],
        surrogate_outputs := [''heat_annual'', ''electricity_annual''],
        input_labels := [''heat_load'', ''hours_storage'', ''temperature_hot''],
        output_labels := [''heat_annual'', ''electricity_annual''],
        surrogate_file := Some (os_path_join (os_path_dirname file) ''flat_plate_surrogate.json''),
        surrogate_blk := Some \<lparr>concrete = True, model = Some (s,
            [''heat_load'', ''hours_storage'', ''temperature_hot''],
            [''heat_annual'', ''electricity_annual''])\<rparr>,
        surrogate := Some s,
        dataset_filename := Some (os_path_join (os_path_dirname file) ''data/flat_plate_data.pkl''),
        n_samples := Some 100,
        training_fraction := Some (PyFloat 8 (- 1))\<rparr> \<and>
     w' = w1\<lparr>stringio_count := Suc (stringio_count w1),
             trace := trace w1 @ [LoadFromFile (os_path_join (os_path_dirname file) ''flat_plate_surrogate.json''), BuildModel]\<rparr>"
  using assms unfolding build_def
  by (auto simp: Let_def split: prod.splits outcome.splits sum.splits option.splits)

section \<open>Facts about the scaling blocks\<close>

lemma and_then_assoc:
  "and_then (and_then x f) g = and_then x (\<lambda>self w. and_then (f self w) g)"
proof -
  obtain out self w where x: "x = (out, self, w)" by (cases x) auto
  show ?thesis unfolding x by (cases out) simp_all
qed

lemma and_then_Returned_right: "and_then x (\<lambda>self w. (Returned, self, w)) = x"
proof -
  obtain out self w where x: "x = (out, self, w)" by (cases x) auto
  show ?thesis unfolding x by (cases out) simp_all
qed

lemma run_blocks_Nil_eta: "run_blocks [] = (\<lambda>self w. (Returned, self, w))"
  by (rule ext)+ simp

lemma run_blocks_Cons_eta:
  "run_blocks ((c, d, warning) # rest) =
     (\<lambda>self w. and_then (scaling_block c d warning self w) (run_blocks rest))"
  by (rule ext)+ simp

lemma run_blocks_single: "run_blocks [(c, d, warning)] = scaling_block c d warning"
  by (rule ext)+ (simp add: run_blocks_Nil_eta and_then_Returned_right)

lemma calculate_scaling_factors_table:
  "calculate_scaling_factors self w = run_blocks scaling_table self w"
  unfolding calculate_scaling_factors_def scaling_table_def and_then_assoc
    run_blocks_Cons_eta run_blocks_Nil_eta and_then_Returned_right ..

lemma scaling_block_cases:
  assumes "scaling_block c d warning self w = (out, self', w')"
  shows "(vars self c = None \<and> out = Raised (AttributeError c) \<and> self' = self \<and> w' = w) \<or>
         (vars self c \<noteq> None \<and> scaling_factor self c \<noteq> None \<and> out = Returned \<and> self' = self \<and> w' = w) \<or>
         (vars self c \<noteq> None \<and> scaling_factor self c = None \<and> out = Returned \<and>
            self' = self\<lparr>scaling_factor := (scaling_factor self)(c \<mapsto> d)\<rparr> \<and>
            w' = w\<lparr>trace := trace w @ (if warning then [Warning c] else []) @ [SetScalingFactor c d]\<rparr>)"
  using assms
  by (auto simp: scaling_block_def get_scaling_factor_def get_scaling_factor_default_def
        set_scaling_factor_def split: option.splits if_splits)

lemma scaling_block_frame:
  assumes "scaling_block c d warning self w = (out, self', w')"
  shows "self' = self\<lparr>scaling_factor := scaling_factor self'\<rparr> \<and> w' = w\<lparr>trace := trace w'\<rparr>
     \<and> (\<exists>evs. trace w' = trace w @ evs)"
  using scaling_block_cases [OF assms] by auto

lemma run_blocks_frame:
  "run_blocks tbl self w = (out, self', w') \<Longrightarrow>
     self' = self\<lparr>scaling_factor := scaling_factor self'\<rparr> \<and> w' = w\<lparr>trace := trace w'\<rparr>
     \<and> (\<exists>evs. trace w' = trace w @ evs)"
proof (induction tbl arbitrary: self w)
  case Nil
  then show ?case by simp
next
  case (Cons row rest)
  obtain c d warning where row: "row = (c, d, warning)" by (cases row) auto
  obtain o1 s1 w1 where step: "scaling_block c d warning self w = (o1, s1, w1)"
    by (cases "scaling_block c d warning self w") auto
  note fr = scaling_block_frame [OF step]
  show ?case
  proof (cases o1)
    case Returned
    with Cons.prems row step have "run_blocks rest s1 w1 = (out, self', w')" by simp
    from Cons.IH [OF this] fr show ?thesis
      by (metis (no_types, lifting) append.assoc block.surjective block.update_convs(14) world.surjective world.update_convs(3))
  next
    case (Raised e)
    with Cons.prems row step have "out = Raised e" "self' = s1" "w' = w1" by simp_all
    with fr show ?thesis by simp
  qed
qed

lemma run_blocks_Cons_Returned:
  assumes "run_blocks ((c, d, warning) # rest) self w = (Returned, self', w')"
  shows "\<exists>s1 w1. scaling_block c d warning self w = (Returned, s1, w1) \<and>
           run_blocks rest s1 w1 = (Returned, self', w')"
proof -
  obtain o1 s1 w1 where step: "scaling_block c d warning self w = (o1, s1, w1)"
    by (cases "scaling_block c d warning self w") auto
  with assms show ?thesis by (cases o1) simp_all
qed

lemma scaling_block_keeps:
  assumes "scaling_block c0 d warning self w = (out, s1, w1)"
    and "scaling_factor self c = Some v"
  shows "scaling_factor s1 c = Some v"
  using scaling_block_cases [OF assms(1)] assms(2) by auto

lemma scaling_block_other:
  assumes "scaling_block c0 d warning self w = (out, s1, w1)" and "c0 \<noteq> c"
  shows "scaling_factor s1 c = scaling_factor self c"
  using scaling_block_cases [OF assms(1)] assms(2) by auto

lemma run_blocks_keeps:
  "run_blocks tbl self w = (Returned, self', w') \<Longrightarrow> scaling_factor self c = Some v \<Longrightarrow>
     scaling_factor self' c = Some v"
proof (induction tbl arbitrary: self w)
  case Nil
  then show ?case by simp
next
  case (Cons row rest)
  obtain c0 d warning where row: "row = (c0, d, warning)" by (cases row) auto
  from run_blocks_Cons_Returned [OF Cons.prems(1) [unfolded row]]
  obtain s1 w1 where step: "scaling_block c0 d warning self w = (Returned, s1, w1)"
    and rest: "run_blocks rest s1 w1 = (Returned, self', w')" by blast
  from scaling_block_keeps [OF step Cons.prems(2)] Cons.IH [OF rest] show ?case by simp
qed

lemma run_blocks_vars:
  "run_blocks tbl self w = (Returned, self', w') \<Longrightarrow> (c, d, warning) \<in> set tbl \<Longrightarrow>
     vars self c \<noteq> None"
proof (induction tbl arbitrary: self w)
  case Nil
  then show ?case by simp
next
  case (Cons row rest)
  obtain c0 d0 warning0 where row: "row = (c0, d0, warning0)" by (cases row) auto
  from run_blocks_Cons_Returned [OF Cons.prems(1) [unfolded row]]
  obtain s1 w1 where step: "scaling_block c0 d0 warning0 self w = (Returned, s1, w1)"
    and rest: "run_blocks rest s1 w1 = (Returned, self', w')" by blast
  have same: "vars s1 = vars self"
    using scaling_block_cases [OF step] by auto
  show ?case
  proof (cases "(c, d, warning) = row")
    case True
    with row scaling_block_cases [OF step] show ?thesis by auto
  next
    case False
    with Cons.prems(2) have "(c, d, warning) \<in> set rest" by simp
    from Cons.IH [OF rest this] same show ?thesis by simp
  qed
qed

lemma run_blocks_value:
  "run_blocks tbl self w = (Returned, self', w') \<Longrightarrow> distinct (map fst tbl) \<Longrightarrow>
     (c, d, warning) \<in> set tbl \<Longrightarrow> scaling_factor self c = None \<Longrightarrow>
     scaling_factor self' c = Some d"
proof (induction tbl arbitrary: self w)
  case Nil
  then show ?case by simp
next
  case (Cons row rest)
  obtain c0 d0 warning0 where row: "row = (c0, d0, warning0)" by (cases row) auto
  from run_blocks_Cons_Returned [OF Cons.prems(1) [unfolded row]]
  obtain s1 w1 where step: "scaling_block c0 d0 warning0 self w = (Returned, s1, w1)"
    and rest: "run_blocks rest s1 w1 = (Returned, self', w')" by blast
  show ?case
  proof (cases "(c, d, warning) = row")
    case True
    with row Cons.prems(4) scaling_block_cases [OF step]
    have "scaling_factor s1 c = Some d" by auto
    from run_blocks_keeps [OF rest this] show ?thesis .
  next
    case False
    with Cons.prems(3) have mem: "(c, d, warning) \<in> set rest" by simp
    then have "c \<in> fst ` set rest" by force
    with Cons.prems(2) row have "c0 \<noteq> c" by auto
    from scaling_block_other [OF step this] Cons.prems(4)
    have "scaling_factor s1 c = None" by simp
    from Cons.IH [OF rest _ mem this] Cons.prems(2) show ?thesis by simp
  qed
qed

lemma run_blocks_fixpoint:
  "(\<forall>row \<in> set tbl. vars self (fst row) \<noteq> None \<and> scaling_factor self (fst row) \<noteq> None) \<Longrightarrow>
     run_blocks tbl self w = (Returned, self, w)"
proof (induction tbl)
  case Nil
  then show ?case by simp
next
  case (Cons row rest)
  obtain c d warning where row: "row = (c, d, warning)" by (cases row) auto
  from Cons.prems row have "scaling_block c d warning self w = (Returned, self, w)"
    by (auto simp: scaling_block_def get_scaling_factor_def)
  with Cons row show ?case by simp
qed

lemma new_events_append:
  "trace w1 = trace w @ e1 \<Longrightarrow> trace w' = trace w1 @ e2 \<Longrightarrow>
     new_events w w' = new_events w w1 @ new_events w1 w'"
  by (simp add: new_events_def)

lemma new_events_self: "new_events w w = []"
  by (simp add: new_events_def)

lemma scaling_block_events:
  assumes "scaling_block c d warning self w = (Returned, s1, w1)"
  shows "new_events w w1 =
           (if scaling_factor self c = None
            then (if warning then [Warning c] else []) @ [SetScalingFactor c d] else [])"
  using scaling_block_cases [OF assms] by (auto simp: new_events_def)

lemma run_blocks_set_count:
  "run_blocks tbl self w = (Returned, self', w') \<Longrightarrow>
     length (filter (sets_factor_of c) (new_events w w')) =
       (if c \<in> fst ` set tbl \<and> scaling_factor self c = None then 1 else 0)"
proof (induction tbl arbitrary: self w)
  case Nil
  then show ?case by (simp add: new_events_self)
next
  case (Cons row rest)
  obtain c0 d0 warning0 where row: "row = (c0, d0, warning0)" by (cases row) auto
  from run_blocks_Cons_Returned [OF Cons.prems(1) [unfolded row]]
  obtain s1 w1 where step: "scaling_block c0 d0 warning0 self w = (Returned, s1, w1)"
    and rest: "run_blocks rest s1 w1 = (Returned, self', w')" by blast
  from scaling_block_frame [OF step] obtain e1 where e1: "trace w1 = trace w @ e1" by blast
  from run_blocks_frame [OF rest] obtain e2 where e2: "trace w' = trace w1 @ e2" by blast
  note split = new_events_append [OF e1 e2]
  note ev = scaling_block_events [OF step]
  note ih = Cons.IH [OF rest]
  show ?case
  proof (cases "c0 = c")
    case True
    show ?thesis
    proof (cases "scaling_factor self c")
      case None
      with True scaling_block_cases [OF step] have "scaling_factor s1 c \<noteq> None" by auto
      with ih ev None True row split show ?thesis by simp
    next
      case (Some v)
      from scaling_block_keeps [OF step Some] ih ev Some True row split show ?thesis by simp
    qed
  next
    case False
    from scaling_block_other [OF step False] ih ev False row split show ?thesis by auto
  qed
qed

lemma run_blocks_warning:
  "run_blocks tbl self w = (Returned, self', w') \<Longrightarrow> distinct (map fst tbl) \<Longrightarrow>
     (Warning c \<in> set (new_events w w')) =
       (scaling_factor self c = None \<and> (\<exists>d. (c, d, True) \<in> set tbl))"
proof (induction tbl arbitrary: self w)
  case Nil
  then show ?case by (simp add: new_events_self)
next
  case (Cons row rest)
  obtain c0 d0 warning0 where row: "row = (c0, d0, warning0)" by (cases row) auto
  from run_blocks_Cons_Returned [OF Cons.prems(1) [unfolded row]]
  obtain s1 w1 where step: "scaling_block c0 d0 warning0 self w = (Returned, s1, w1)"
    and rest: "run_blocks rest s1 w1 = (Returned, self', w')" by blast
  from scaling_block_frame [OF step] obtain e1 where e1: "trace w1 = trace w @ e1" by blast
  from run_blocks_frame [OF rest] obtain e2 where e2: "trace w' = trace w1 @ e2" by blast
  note split = new_events_append [OF e1 e2]
  note ev = scaling_block_events [OF step]
  from Cons.prems(2) have dist: "distinct (map fst rest)" by simp
  note ih = Cons.IH [OF rest dist]
  show ?case
  proof (cases "c0 = c")
    case True
    with Cons.prems(2) row have notin: "\<And>d b. (c, d, b) \<notin> set rest" by force
    show ?thesis
    proof (cases "scaling_factor self c")
      case None
      with ih ev True row split notin show ?thesis by auto
    next
      case (Some v)
      from scaling_block_keeps [OF step Some] ih ev Some True row split show ?thesis by simp
    qed
  next
    case False
    from scaling_block_other [OF step False] ih ev False row split show ?thesis by auto
  qed
qed

section \<open>The example run\<close>

lemma example_run_returned:
  "build good_host module_file empty_block console_world = (Returned, example_block, example_world)"
proof -
  have "fst (build good_host module_file empty_block console_world) = Returned"
    by (simp add: build_def good_host_def solar_energy_base_build_def module_file_def
          os_path_join_def os_path_dirname_def Let_def)
  then show ?thesis
    by (simp add: example_block_def example_world_def prod_eq_iff)
qed

lemma good_host_super_build:
  "super_build good_host empty_block console_world =
     (Returned,
      empty_block\<lparr>vars := [''electricity'' \<mapsto>
                  \<lparr>initialize = 0, bounds = Some (0, 1000000), units = kW, doc = ''Electricity''\<rparr>,
                 ''heat'' \<mapsto>
                  \<lparr>initialize = 0, bounds = Some (0, 1000000), units = kW, doc = ''Heat''\<rparr>]\<rparr>,
      console_world)"
  by (simp add: good_host_def solar_energy_base_build_def empty_block_def)

lemma run_blocks_returns:
  "(\<forall>row \<in> set tbl. vars self (fst row) \<noteq> None) \<Longrightarrow> fst (run_blocks tbl self w) = Returned"
proof (induction tbl arbitrary: self w)
  case Nil
  then show ?case by simp
next
  case (Cons row rest)
  obtain c d warning where row: "row = (c, d, warning)" by (cases row) auto
  obtain o1 s1 w1 where step: "scaling_block c d warning self w = (o1, s1, w1)"
    by (cases "scaling_block c d warning self w") auto
  from scaling_block_cases [OF step] Cons.prems row
  have ok: "o1 = Returned" and same: "vars s1 = vars self" by auto
  from Cons.prems same have "\<forall>row \<in> set rest. vars s1 (fst row) \<noteq> None" by simp
  from Cons.IH [OF this] step ok row show ?case by simp
qed

lemma calculate_scaling_factors_frame:
  assumes "calculate_scaling_factors self w = (out, self', w')"
  shows "self' = self\<lparr>scaling_factor := scaling_factor self'\<rparr>" and "w' = w\<lparr>trace := trace w'\<rparr>"
  using run_blocks_frame [OF assms [unfolded calculate_scaling_factors_table]] by simp_all

lemma calculate_scaling_factors_surrogate:
  "surrogate (fst (snd (calculate_scaling_factors self w))) = surrogate self"
proof -
  obtain out self' w' where r: "calculate_scaling_factors self w = (out, self', w')"
    by (cases "calculate_scaling_factors self w") auto
  from calculate_scaling_factors_frame(1) [OF r]
  have "surrogate self' = surrogate (self\<lparr>scaling_factor := scaling_factor self'\<rparr>)" by simp
  with r show ?thesis by simp
qed

lemma missing_file_host_super_build:
  "super_build missing_file_host empty_block console_world =
     (Returned,
      empty_block\<lparr>vars := [''electricity'' \<mapsto>
                  \<lparr>initialize = 0, bounds = Some (0, 1000000), units = kW, doc = ''Electricity''\<rparr>,
                 ''heat'' \<mapsto>
                  \<lparr>initialize = 0, bounds = Some (0, 1000000), units = kW, doc = ''Heat''\<rparr>]\<rparr>,
      console_world)"
  by (simp add: missing_file_host_def solar_energy_base_build_def empty_block_def)

lemma bare_host_super_build:
  "super_build bare_host empty_block console_world = (Returned, empty_block, console_world)"
  by (simp add: bare_host_def)

lemma build_Raised_stdout:
  assumes "super_build h self0 w0 = (Returned, self1, w1)"
    and "build h file self0 w0 = (Raised e, self', w')"
  shows "sys_stdout w' = StringIO (stringio_count w1)"
  using assms unfolding build_def
  by (auto simp: Let_def split: sum.splits option.splits)

lemma build_Returned_super:
  assumes "build h file self0 w0 = (Returned, self', w')"
  shows "\<exists>self1 w1. super_build h self0 w0 = (Returned, self1, w1)"
  using build_Returned_fields [OF assms] by blast

lemma build_Returned_vars:
  assumes "super_build h self0 w0 = (Returned, self1, w1)"
    and "build h file self0 w0 = (Returned, self', w')"
  shows "vars self' = (vars self1)(''heat_load'' \<mapsto>
                       \<lparr>initialize = 1000, bounds = Some (100, 1000), units = MW,
                        doc = ''Rated plant heat capacity in MWt''\<rparr>,
                 ''hours_storage'' \<mapsto>
                       \<lparr>initialize = 20, bounds = Some (0, 26), units = hour,
                        doc = ''Rated plant hours of storage''\<rparr>,
                 ''temperature_hot'' \<mapsto>
                       \<lparr>initialize = 70, bounds = Some (50, 100), units = C,
                        doc = ''Hot outlet temperature''\<rparr>,
                 ''heat_annual'' \<mapsto>
                       \<lparr>initialize = 1000, bounds = None, units = kWh,
                        doc = ''Annual heat generated by flat plate''\<rparr>,
                 ''electricity_annual'' \<mapsto>
                       \<lparr>initialize = 20, bounds = None, units = kWh,
                        doc = ''Annual electricity consumed by flat plate''\<rparr>)"
  using build_Returned_fields [OF assms(2)] assms(1) by auto

lemma dropWhile_to_sep:
  "s \<notin> set xs \<Longrightarrow> dropWhile (\<lambda>c. c \<noteq> s) (xs @ s # ys) = s # ys"
  by (induction xs) auto

lemma dropWhile_sep_rev:
  "d \<noteq> [] \<Longrightarrow> last d \<noteq> s \<Longrightarrow> dropWhile (\<lambda>c. c = s) (rev d) = rev d"
  by (cases d rule: rev_cases) auto

lemma not_all_sep:
  assumes "d \<noteq> []" and "last d \<noteq> s"
  shows "\<not> list_all (\<lambda>c. c = s) (d @ [s])"
proof -
  from assms(1) have "last d \<in> set d" by simp
  with assms(2) show ?thesis by (auto simp: list_all_iff)
qed

lemma os_path_dirname_beside:
  assumes "d \<noteq> []" and "last d \<noteq> CHR ''/''" and "CHR ''/'' \<notin> set n"
  shows "os_path_dirname (d @ ''/'' @ n) = d"
proof -
  from assms(3) have "CHR ''/'' \<notin> set (rev n)" by simp
  from dropWhile_to_sep [OF this, of "rev d"]
  have "dropWhile (\<lambda>c. c \<noteq> CHR ''/'') (rev (d @ ''/'' @ n)) = CHR ''/'' # rev d"
    by simp
  then have head: "rev (dropWhile (\<lambda>c. c \<noteq> CHR ''/'') (rev (d @ ''/'' @ n))) = d @ ''/''"
    by simp
  note notall = not_all_sep [OF assms(1,2)]
  from dropWhile_sep_rev [OF assms(1,2)]
  have strip: "rev (dropWhile (\<lambda>c. c = CHR ''/'') (rev (d @ ''/''))) = d"
    by simp
  have ne: "d @ ''/'' \<noteq> []" by simp
  show ?thesis
    unfolding os_path_dirname_def Let_def head
    by (simp only: ne notall strip simp_thms if_True)
qed

lemma os_path_join_plain:
  assumes "d \<noteq> []" and "last d \<noteq> CHR ''/''" and "take 1 f \<noteq> ''/''"
  shows "os_path_join d f = d @ ''/'' @ f"
  using assms by (simp add: os_path_join_def)

lemma build_Returned_paths:
  assumes "build h file self0 w0 = (Returned, self', w')"
  shows "surrogate_file self' =
           Some (os_path_join (os_path_dirname file) ''flat_plate_surrogate.json'')"
    and "dataset_filename self' =
           Some (os_path_join (os_path_dirname file) ''data/flat_plate_data.pkl'')"
  using build_Returned_fields [OF assms] by auto

lemma build_Returned_load:
  assumes "super_build h self0 w0 = (Returned, self1, w1)"
    and "build h file self0 w0 = (Returned, self', w')"
  shows "\<exists>s. load_from_file h (os_path_join (os_path_dirname file) ''flat_plate_surrogate.json'') = Inr s
           \<and> surrogate self' = Some s"
    and "trace w' = trace w1 @
       [LoadFromFile (os_path_join (os_path_dirname file) ''flat_plate_surrogate.json''), BuildModel]"
  using build_Returned_fields [OF assms(2)] assms(1) by auto

lemma build_Returned_surrogate_binding:
  assumes "build h file self0 w0 = (Returned, self', w')"
  shows "surrogate_inputs self' = [''heat_load'', ''hours_storage'', ''temperature_hot'']"
    and "surrogate_outputs self' = [''heat_annual'', ''electricity_annual'']"
    and "\<exists>s. surrogate self' = Some s \<and>
           surrogate_blk self' = Some \<lparr>concrete = True, model = Some (s,
             [''heat_load'', ''hours_storage'', ''temperature_hot''],
             [''heat_annual'', ''electricity_annual''])\<rparr>"
  using build_Returned_fields [OF assms] by auto

lemma example_block_vars:
  "vars example_block =
     [''electricity'' \<mapsto>
        \<lparr>initialize = 0, bounds = Some (0, 1000000), units = kW, doc = ''Electricity''\<rparr>,
      ''heat'' \<mapsto>
        \<lparr>initialize = 0, bounds = Some (0, 1000000), units = kW, doc = ''Heat''\<rparr>,
      ''heat_load'' \<mapsto>
        \<lparr>initialize = 1000, bounds = Some (100, 1000), units = MW,
         doc = ''Rated plant heat capacity in MWt''\<rparr>,
      ''hours_storage'' \<mapsto>
        \<lparr>initialize = 20, bounds = Some (0, 26), units = hour,
         doc = ''Rated plant hours of storage''\<rparr>,
      ''temperature_hot'' \<mapsto>
        \<lparr>initialize = 70, bounds = Some (50, 100), units = C,
         doc = ''Hot outlet temperature''\<rparr>,
      ''heat_annual'' \<mapsto>
        \<lparr>initialize = 1000, bounds = None, units = kWh,
         doc = ''Annual heat generated by flat plate''\<rparr>,
      ''electricity_annual'' \<mapsto>
        \<lparr>initialize = 20, bounds = None, units = kWh,
         doc = ''Annual electricity consumed by flat plate''\<rparr>]"
  using build_Returned_vars [OF good_host_super_build example_run_returned]
  by (simp add: empty_block_def)

lemma scaling_table_names: "map fst scaling_table = scaled_vars"
  by (simp add: scaling_table_def scaled_vars_def)

lemma scaling_table_distinct: "distinct (map fst scaling_table)"
  by (simp add: scaling_table_def)

lemma example_block_scaled_vars:
  "\<forall>row \<in> set scaling_table. vars example_block (fst row) \<noteq> None"
  using build_Returned_vars [OF good_host_super_build example_run_returned]
  by (simp add: scaling_table_def)

lemma build_Returned_scaling_factor:
  assumes "super_build h self0 w0 = (Returned, self1, w1)"
    and "build h file self0 w0 = (Returned, self', w')"
  shows "scaling_factor self' = scaling_factor self1"
  using build_Returned_fields [OF assms(2)] assms(1) by auto

lemma example_block_no_factors: "scaling_factor example_block = Map.empty"
  using build_Returned_scaling_factor [OF good_host_super_build example_run_returned]
  by (simp add: empty_block_def)

lemma example_scaling_returned:
  "calculate_scaling_factors example_block example_world =
     (Returned, fst (snd (calculate_scaling_factors example_block example_world)),
      snd (snd (calculate_scaling_factors example_block example_world)))"
  using run_blocks_returns [OF example_block_scaled_vars, of example_world]
  by (simp add: calculate_scaling_factors_table prod_eq_iff)

section \<open>Claims\<close>



text \<open>
  C3. A build that returns has called the surrogate loader exactly once, on the artifact's
  path, and the block's \<open>surrogate\<close> attribute is the object that call returned. Neither
  \<^verbatim>\<open>calculate_scaling_factors\<close> nor \<^verbatim>\<open>initialize_build\<close> changes that attribute, in
  whatever world they run.
\<close>

theorem surrogate_loaded_once_then_fixed:
  assumes "super_build h self0 w0 = (Returned, self1, w1)"
    and "build h file self0 w0 = (Returned, self', w')"
  shows "filter is_load (new_events w1 w') =
           [LoadFromFile (os_path_join (os_path_dirname file) ''flat_plate_surrogate.json'')]
       \<and> (\<exists>s. load_from_file h (os_path_join (os_path_dirname file) ''flat_plate_surrogate.json'') = Inr s
              \<and> surrogate self' = Some s)
       \<and> surrogate (fst (snd (calculate_scaling_factors self' w2))) = surrogate self'
       \<and> surrogate (fst (snd (initialize_build self' w2))) = surrogate self'"
proof -
  from build_Returned_fields [OF assms(2)] assms(1)
  obtain s where
    ld: "load_from_file h (os_path_join (os_path_dirname file) ''flat_plate_surrogate.json'') = Inr s"
    and sur: "surrogate self' = Some s"
    and tr: "trace w' = trace w1 @
       [LoadFromFile (os_path_join (os_path_dirname file) ''flat_plate_surrogate.json''), BuildModel]"
    by auto
  have "filter is_load (new_events w1 w') =
           [LoadFromFile (os_path_join (os_path_dirname file) ''flat_plate_surrogate.json'')]"
    by (simp add: new_events_def tr)
  moreover have "surrogate (fst (snd (initialize_build self' w2))) = surrogate self'"
    by (simp add: initialize_build_def)
  ultimately show ?thesis
    using ld sur calculate_scaling_factors_surrogate by blast
qed

theorem surrogate_loaded_once_then_fixed_witness:
  "build good_host module_file empty_block console_world = (Returned, example_block, example_world)
   \<and> filter is_load (trace example_world) = [LoadFromFile ''/pkg/flat_plate/flat_plate_surrogate.json'']
   \<and> surrogate example_block = Some (PysmoSurrogate ''/pkg/flat_plate/flat_plate_surrogate.json'')
   \<and> surrogate (fst (snd (calculate_scaling_factors example_block example_world))) =
       Some (PysmoSurrogate ''/pkg/flat_plate/flat_plate_surrogate.json'')"
  using surrogate_loaded_once_then_fixed [OF good_host_super_build example_run_returned, of example_world]
    example_run_returned
  by (auto simp: new_events_def console_world_def module_file_def os_path_join_def
        os_path_dirname_def good_host_def)

text \<open>
  C7. The initialization hook does nothing: for every block and world it returns (with no
  value) and leaves the block and the world as they were.
\<close>

theorem initialize_build_unused:
  "initialize_build self w = (Returned, self, w)"
  by (simp add: initialize_build_def)

text \<open>
  C6. \<^verbatim>\<open>build\<close> has no handler. An exception of the base class's build, of the surrogate
  loader (a missing or malformed artifact), of \<^verbatim>\<open>build_model\<close>, or of the construction of
  either constraint (a base class without \<open>heat\<close> or \<open>electricity\<close>) is the exception
  that \<^verbatim>\<open>build\<close> raises.
\<close>

theorem build_propagates_errors:
  "(super_build h self0 w0 = (Raised e, self1, w1) \<longrightarrow>
      build h file self0 w0 = (Raised e, self1, w1))
   \<and> (super_build h self0 w0 = (Returned, self1, w1) \<and>
      load_from_file h (os_path_join (os_path_dirname file) ''flat_plate_surrogate.json'') = Inl e \<longrightarrow>
        fst (build h file self0 w0) = Raised e)
   \<and> (super_build h self0 w0 = (Returned, self1, w1) \<and>
      load_from_file h (os_path_join (os_path_dirname file) ''flat_plate_surrogate.json'') = Inr s \<and>
      build_model h s [''heat_load'', ''hours_storage'', ''temperature_hot'']
        [''heat_annual'', ''electricity_annual''] = Some e \<longrightarrow>
        fst (build h file self0 w0) = Raised e)
   \<and> (super_build h self0 w0 = (Returned, self1, w1) \<and>
      load_from_file h (os_path_join (os_path_dirname file) ''flat_plate_surrogate.json'') = Inr s \<and>
      build_model h s [''heat_load'', ''hours_storage'', ''temperature_hot'']
        [''heat_annual'', ''electricity_annual''] = None \<and>
      vars self1 ''heat'' = None \<longrightarrow>
        fst (build h file self0 w0) = Raised (AttributeError ''heat''))
   \<and> (super_build h self0 w0 = (Returned, self1, w1) \<and>
      load_from_file h (os_path_join (os_path_dirname file) ''flat_plate_surrogate.json'') = Inr s \<and>
      build_model h s [''heat_load'', ''hours_storage'', ''temperature_hot'']
        [''heat_annual'', ''electricity_annual''] = None \<and>
      vars self1 ''heat'' \<noteq> None \<and> vars self1 ''electricity'' = None \<longrightarrow>
        fst (build h file self0 w0) = Raised (AttributeError ''electricity''))"
  unfolding build_def by (auto simp: Let_def)

theorem build_propagates_errors_witness:
  "super_build missing_file_host empty_block console_world =
     (Returned,
      empty_block\<lparr>vars := [''electricity'' \<mapsto>
                  \<lparr>initialize = 0, bounds = Some (0, 1000000), units = kW, doc = ''Electricity''\<rparr>,
                 ''heat'' \<mapsto>
                  \<lparr>initialize = 0, bounds = Some (0, 1000000), units = kW, doc = ''Heat''\<rparr>]\<rparr>,
      console_world)
   \<and> load_from_file missing_file_host
        (os_path_join (os_path_dirname module_file) ''flat_plate_surrogate.json'') =
       Inl (HostError ''FileNotFoundError'')
   \<and> fst (build missing_file_host module_file empty_block console_world) =
       Raised (HostError ''FileNotFoundError'')
   \<and> fst (build bare_host module_file empty_block console_world) = Raised (AttributeError ''heat'')"
proof -
  have ld: "load_from_file missing_file_host
        (os_path_join (os_path_dirname module_file) ''flat_plate_surrogate.json'') =
       Inl (HostError ''FileNotFoundError'')"
    by (simp add: missing_file_host_def)
  have ld2: "load_from_file bare_host
        (os_path_join (os_path_dirname module_file) ''flat_plate_surrogate.json'') =
       Inr (PysmoSurrogate (os_path_join (os_path_dirname module_file) ''flat_plate_surrogate.json''))"
    by (simp add: bare_host_def)
  have bm: "build_model bare_host
       (PysmoSurrogate (os_path_join (os_path_dirname module_file) ''flat_plate_surrogate.json''))
       [''heat_load'', ''hours_storage'', ''temperature_hot'']
        [''heat_annual'', ''electricity_annual''] = None"
    by (simp add: bare_host_def)
  have nv: "vars empty_block ''heat'' = None" by (simp add: empty_block_def)
  from build_propagates_errors [of missing_file_host empty_block console_world
      "HostError ''FileNotFoundError''" _ console_world module_file]
    missing_file_host_super_build ld
  have a: "fst (build missing_file_host module_file empty_block console_world) =
       Raised (HostError ''FileNotFoundError'')" by blast
  from build_propagates_errors [of bare_host empty_block console_world
      _ empty_block console_world module_file]
    bare_host_super_build ld2 bm nv
  have b: "fst (build bare_host module_file empty_block console_world) = Raised (AttributeError ''heat'')"
    by blast
  from a b ld missing_file_host_super_build show ?thesis by blast
qed

text \<open>
  C8. After the base class's build, \<^verbatim>\<open>build\<close> points \<^verbatim>\<open>sys.stdout\<close> at a new buffer.
  When \<^verbatim>\<open>build\<close> returns, \<^verbatim>\<open>sys.stdout\<close> is again the stream it was before the
  redirection. When \<^verbatim>\<open>build\<close> raises after the base class's build has returned,
  \<^verbatim>\<open>sys.stdout\<close> is still the buffer, which is not the stream it was before (the buffer
  being a new object).
\<close>

theorem build_stdout_restored_only_on_return:
  assumes "super_build h self0 w0 = (Returned, self1, w1)"
    and "build h file self0 w0 = (out, self', w')"
  shows "(out = Returned \<longrightarrow> sys_stdout w' = sys_stdout w1)
       \<and> (out \<noteq> Returned \<longrightarrow> sys_stdout w' = StringIO (stringio_count w1))
       \<and> (out \<noteq> Returned \<and> allocated w1 (sys_stdout w1) \<longrightarrow> sys_stdout w' \<noteq> sys_stdout w1)"
proof (cases out)
  case Returned
  from build_Returned_fields [OF assms(2) [unfolded Returned]] assms(1)
  have "sys_stdout w' = sys_stdout w1" by auto
  with Returned show ?thesis by simp
next
  case (Raised e)
  from build_Raised_stdout [OF assms(1) assms(2) [unfolded Raised]]
  have buf: "sys_stdout w' = StringIO (stringio_count w1)" .
  have "allocated w1 (sys_stdout w1) \<Longrightarrow> sys_stdout w1 \<noteq> StringIO (stringio_count w1)"
    by (cases "sys_stdout w1") auto
  with buf Raised show ?thesis by auto
qed

theorem build_stdout_restored_only_on_return_witness:
  "super_build missing_file_host empty_block console_world =
     (Returned,
      empty_block\<lparr>vars := [''electricity'' \<mapsto>
                  \<lparr>initialize = 0, bounds = Some (0, 1000000), units = kW, doc = ''Electricity''\<rparr>,
                 ''heat'' \<mapsto>
                  \<lparr>initialize = 0, bounds = Some (0, 1000000), units = kW, doc = ''Heat''\<rparr>]\<rparr>,
      console_world)
   \<and> fst (build missing_file_host module_file empty_block console_world) =
        Raised (HostError ''FileNotFoundError'')
   \<and> allocated console_world (sys_stdout console_world)
   \<and> sys_stdout console_world = Console
   \<and> sys_stdout (snd (snd (build missing_file_host module_file empty_block console_world))) = StringIO 0
   \<and> sys_stdout example_world = Console"
proof -
  have r: "fst (build missing_file_host module_file empty_block console_world) =
        Raised (HostError ''FileNotFoundError'')"
    by (simp add: build_def missing_file_host_def solar_energy_base_build_def Let_def)
  have al: "allocated console_world (sys_stdout console_world)" "sys_stdout console_world = Console"
    "stringio_count console_world = 0"
    by (simp_all add: console_world_def)
  have c: "build missing_file_host module_file empty_block console_world =
     (fst (build missing_file_host module_file empty_block console_world),
      fst (snd (build missing_file_host module_file empty_block console_world)),
      snd (snd (build missing_file_host module_file empty_block console_world)))" by simp
  from build_stdout_restored_only_on_return [OF missing_file_host_super_build c] r al
  have a: "sys_stdout (snd (snd (build missing_file_host module_file empty_block console_world))) = StringIO 0"
    by simp
  from build_stdout_restored_only_on_return [OF good_host_super_build example_run_returned] al
  have b: "sys_stdout example_world = Console" by simp
  from a b r al missing_file_host_super_build show ?thesis by blast
qed

text \<open>
  C10. In a constructed block \<open>heat_load\<close> has bounds \<open>[100, 1000]\<close> and initial guess
  1000, \<open>hours_storage\<close> has bounds \<open>[0, 26]\<close> and initial guess 20, and
  \<open>temperature_hot\<close> has bounds \<open>[50, 100]\<close> and initial guess 70; and every variable that
  \<^verbatim>\<open>build\<close> declares with bounds has its initial guess within them.
\<close>

theorem build_initial_guess_within_bounds:
  assumes "build h file self0 w0 = (Returned, self', w')"
  shows "(\<exists>v. vars self' ''heat_load'' = Some v \<and> bounds v = Some (100, 1000) \<and> initialize v = 1000)
       \<and> (\<exists>v. vars self' ''hours_storage'' = Some v \<and> bounds v = Some (0, 26) \<and> initialize v = 20)
       \<and> (\<exists>v. vars self' ''temperature_hot'' = Some v \<and> bounds v = Some (50, 100) \<and> initialize v = 70)
       \<and> (\<forall>c \<in> {''heat_load'', ''hours_storage'', ''temperature_hot'', ''heat_annual'',
                  ''electricity_annual''}.
            \<forall>v lo hi. vars self' c = Some v \<and> bounds v = Some (lo, hi) \<longrightarrow>
              lo \<le> initialize v \<and> initialize v \<le> hi)"
proof -
  from build_Returned_super [OF assms] obtain self1 w1 where
    sup: "super_build h self0 w0 = (Returned, self1, w1)" by blast
  show ?thesis unfolding build_Returned_vars [OF sup assms] by auto
qed

theorem build_initial_guess_within_bounds_witness:
  "build good_host module_file empty_block console_world = (Returned, example_block, example_world)
   \<and> map_option bounds (vars example_block ''heat_load'') = Some (Some (100, 1000))
   \<and> map_option initialize (vars example_block ''heat_load'') = Some 1000
   \<and> map_option bounds (vars example_block ''hours_storage'') = Some (Some (0, 26))
   \<and> map_option initialize (vars example_block ''hours_storage'') = Some 20
   \<and> map_option bounds (vars example_block ''temperature_hot'') = Some (Some (50, 100))
   \<and> map_option initialize (vars example_block ''temperature_hot'') = Some 70"
  using build_initial_guess_within_bounds [OF example_run_returned] example_run_returned
  by auto

text \<open>
  C5. A build that returns has set \<open>surrogate_file\<close> to \<^verbatim>\<open>os.path.dirname(__file__)\<close>
  joined with \<^verbatim>\<open>flat_plate_surrogate.json\<close> and \<open>dataset_filename\<close> to the same directory
  joined with \<^verbatim>\<open>data/flat_plate_data.pkl\<close>, and its one load of the artifact was from the
  first of these paths. Both paths are functions of the module's file name alone: any other
  returning build of the same module, on any host, block and world, sets the same two
  paths. When the module's file name is a directory, a slash and a base name, the two
  files are those names inside that directory.
\<close>

theorem build_paths_beside_source_file:
  assumes "super_build h self0 w0 = (Returned, self1, w1)"
    and "build h file self0 w0 = (Returned, self', w')"
  shows "surrogate_file self' =
           Some (os_path_join (os_path_dirname file) ''flat_plate_surrogate.json'')
       \<and> dataset_filename self' =
           Some (os_path_join (os_path_dirname file) ''data/flat_plate_data.pkl'')
       \<and> (\<exists>s. load_from_file h (os_path_join (os_path_dirname file) ''flat_plate_surrogate.json'') = Inr s
              \<and> surrogate self' = Some s)
       \<and> filter is_load (new_events w1 w') =
           [LoadFromFile (os_path_join (os_path_dirname file) ''flat_plate_surrogate.json'')]
       \<and> (build h2 file b2 w2 = (Returned, self2, w2') \<longrightarrow>
            surrogate_file self2 = surrogate_file self' \<and>
            dataset_filename self2 = dataset_filename self')
       \<and> (file = d @ ''/'' @ n \<and> d \<noteq> [] \<and> last d \<noteq> CHR ''/'' \<and> CHR ''/'' \<notin> set n \<longrightarrow>
            surrogate_file self' = Some (d @ ''/flat_plate_surrogate.json'') \<and>
            dataset_filename self' = Some (d @ ''/data/flat_plate_data.pkl''))"
proof -
  note p = build_Returned_paths [OF assms(2)]
  note l = build_Returned_load [OF assms]
  have ev: "filter is_load (new_events w1 w') =
           [LoadFromFile (os_path_join (os_path_dirname file) ''flat_plate_surrogate.json'')]"
    by (simp add: new_events_def l(2))
  have other: "build h2 file b2 w2 = (Returned, self2, w2') \<Longrightarrow>
            surrogate_file self2 = surrogate_file self' \<and>
            dataset_filename self2 = dataset_filename self'"
    using build_Returned_paths [of h2 "file" b2 w2 self2 w2'] p by simp
  have beside: "surrogate_file self' = Some (d @ ''/flat_plate_surrogate.json'') \<and>
            dataset_filename self' = Some (d @ ''/data/flat_plate_data.pkl'')"
    if "file = d @ ''/'' @ n" "d \<noteq> []" "last d \<noteq> CHR ''/''" "CHR ''/'' \<notin> set n"
    using p os_path_dirname_beside [OF that(2,3,4)] that(1)
      os_path_join_plain [OF that(2,3), of "''flat_plate_surrogate.json''"]
      os_path_join_plain [OF that(2,3), of "''data/flat_plate_data.pkl''"]
    by simp
  from p l(1) ev other beside show ?thesis by blast
qed

theorem build_paths_beside_source_file_witness:
  "super_build good_host empty_block console_world =
     (Returned,
      empty_block\<lparr>vars := [''electricity'' \<mapsto>
                  \<lparr>initialize = 0, bounds = Some (0, 1000000), units = kW, doc = ''Electricity''\<rparr>,
                 ''heat'' \<mapsto>
                  \<lparr>initialize = 0, bounds = Some (0, 1000000), units = kW, doc = ''Heat''\<rparr>]\<rparr>,
      console_world)
   \<and> build good_host module_file empty_block console_world = (Returned, example_block, example_world)
   \<and> module_file = ''/pkg/flat_plate'' @ ''/'' @ ''flat_plate_surrogate.py''
   \<and> surrogate_file example_block = Some ''/pkg/flat_plate/flat_plate_surrogate.json''
   \<and> dataset_filename example_block = Some ''/pkg/flat_plate/data/flat_plate_data.pkl''
   \<and> surrogate example_block = Some (PysmoSurrogate ''/pkg/flat_plate/flat_plate_surrogate.json'')"
proof -
  have m: "module_file = ''/pkg/flat_plate'' @ ''/'' @ ''flat_plate_surrogate.py''"
    by (simp add: module_file_def)
  have side: "''/pkg/flat_plate'' \<noteq> []" "last ''/pkg/flat_plate'' \<noteq> CHR ''/''"
    "CHR ''/'' \<notin> set ''flat_plate_surrogate.py''"
    by simp_all
  from build_paths_beside_source_file [OF good_host_super_build example_run_returned,
      of good_host empty_block console_world example_block example_world
         "''/pkg/flat_plate''" "''flat_plate_surrogate.py''"] m side example_run_returned
  have "surrogate_file example_block = Some ''/pkg/flat_plate/flat_plate_surrogate.json''"
    "dataset_filename example_block = Some ''/pkg/flat_plate/data/flat_plate_data.pkl''"
    "\<exists>s. load_from_file good_host ''/pkg/flat_plate/flat_plate_surrogate.json'' = Inr s
              \<and> surrogate example_block = Some s"
    by auto
  then show ?thesis
    using m example_run_returned good_host_super_build by (auto simp: good_host_def)
qed

text \<open>
  C4, as stated, does not hold. In the block built on a base class that declares \<open>heat\<close>
  and \<open>electricity\<close>, both bounded, the block has seven variables, of which five are
  bounded, not six, and the two annual output variables have no bounds.
\<close>

theorem six_bounded_variables_counterexample:
  "dom (vars example_block) =
     {''electricity'', ''heat'', ''heat_load'', ''hours_storage'', ''temperature_hot'',
      ''heat_annual'', ''electricity_annual''}
   \<and> bounded_names example_block
       [''electricity'', ''heat'', ''heat_load'', ''hours_storage'', ''temperature_hot'',
        ''heat_annual'', ''electricity_annual''] =
     [''electricity'', ''heat'', ''heat_load'', ''hours_storage'', ''temperature_hot'']
   \<and> length (bounded_names example_block
       [''electricity'', ''heat'', ''heat_load'', ''hours_storage'', ''temperature_hot'',
        ''heat_annual'', ''electricity_annual'']) \<noteq> 6
   \<and> bounded_names example_block [''heat_annual'', ''electricity_annual''] = []"
  unfolding example_block_vars bounded_names_def by auto

text \<open>
  C4, amended. \<^verbatim>\<open>build\<close> declares exactly five variables on top of those of the base
  class: three decision variables that are bounded, carry units and have an initial guess
  (\<open>heat_load\<close>, \<open>[100, 1000]\<close> MW, 1000; \<open>hours_storage\<close>, \<open>[0, 26]\<close> hour, 20;
  \<open>temperature_hot\<close>, \<open>[50, 100]\<close> C, 70) and two annual output variables
  (\<open>heat_annual\<close>, kWh, 1000; \<open>electricity_annual\<close>, kWh, 20) that have units and an
  initial guess but no bounds. The surrogate block binds the loaded surrogate to the three
  decision variables as inputs and to the two annual variables as outputs; \<open>heat\<close> and
  \<open>electricity\<close> are the base class's and are left as they were.
\<close>

theorem build_declares_five_variables:
  assumes "super_build h self0 w0 = (Returned, self1, w1)"
    and "build h file self0 w0 = (Returned, self', w')"
  shows "vars self' = (vars self1)
           (''heat_load'' \<mapsto>
              \<lparr>initialize = 1000, bounds = Some (100, 1000), units = MW,
               doc = ''Rated plant heat capacity in MWt''\<rparr>,
            ''hours_storage'' \<mapsto>
              \<lparr>initialize = 20, bounds = Some (0, 26), units = hour,
               doc = ''Rated plant hours of storage''\<rparr>,
            ''temperature_hot'' \<mapsto>
              \<lparr>initialize = 70, bounds = Some (50, 100), units = C,
               doc = ''Hot outlet temperature''\<rparr>,
            ''heat_annual'' \<mapsto>
              \<lparr>initialize = 1000, bounds = None, units = kWh,
               doc = ''Annual heat generated by flat plate''\<rparr>,
            ''electricity_annual'' \<mapsto>
              \<lparr>initialize = 20, bounds = None, units = kWh,
               doc = ''Annual electricity consumed by flat plate''\<rparr>)
       \<and> bounded_names self'
             [''heat_load'', ''hours_storage'', ''temperature_hot'', ''heat_annual'',
              ''electricity_annual''] =
           [''heat_load'', ''hours_storage'', ''temperature_hot'']
       \<and> vars self1 ''heat'' \<noteq> None \<and> vars self' ''heat'' = vars self1 ''heat''
       \<and> vars self1 ''electricity'' \<noteq> None \<and> vars self' ''electricity'' = vars self1 ''electricity''
       \<and> surrogate_inputs self' = [''heat_load'', ''hours_storage'', ''temperature_hot'']
       \<and> surrogate_outputs self' = [''heat_annual'', ''electricity_annual'']
       \<and> (\<exists>s. surrogate self' = Some s \<and>
             surrogate_blk self' = Some \<lparr>concrete = True, model = Some (s,
               [''heat_load'', ''hours_storage'', ''temperature_hot''],
               [''heat_annual'', ''electricity_annual''])\<rparr>)"
proof -
  note vs = build_Returned_vars [OF assms]
  note sb = build_Returned_surrogate_binding [OF assms(2)]
  from build_Returned_fields [OF assms(2)] assms(1)
  have base: "vars self1 ''heat'' \<noteq> None" "vars self1 ''electricity'' \<noteq> None" by auto
  have bn: "bounded_names self'
             [''heat_load'', ''hours_storage'', ''temperature_hot'', ''heat_annual'',
              ''electricity_annual''] =
           [''heat_load'', ''hours_storage'', ''temperature_hot'']"
    unfolding bounded_names_def vs by simp
  have keep: "vars self' ''heat'' = vars self1 ''heat''"
    "vars self' ''electricity'' = vars self1 ''electricity''"
    unfolding vs by simp_all
  from vs sb base bn keep show ?thesis by blast
qed

theorem build_declares_five_variables_witness:
  "super_build good_host empty_block console_world =
     (Returned,
      empty_block\<lparr>vars := [''electricity'' \<mapsto>
                  \<lparr>initialize = 0, bounds = Some (0, 1000000), units = kW, doc = ''Electricity''\<rparr>,
                 ''heat'' \<mapsto>
                  \<lparr>initialize = 0, bounds = Some (0, 1000000), units = kW, doc = ''Heat''\<rparr>]\<rparr>,
      console_world)
   \<and> build good_host module_file empty_block console_world = (Returned, example_block, example_world)
   \<and> map_option units (vars example_block ''heat_annual'') = Some kWh
   \<and> map_option bounds (vars example_block ''heat_annual'') = Some None
   \<and> map_option units (vars example_block ''temperature_hot'') = Some C
   \<and> surrogate_outputs example_block = [''heat_annual'', ''electricity_annual'']
   \<and> bounded_names example_block
         [''heat_load'', ''hours_storage'', ''temperature_hot'', ''heat_annual'',
          ''electricity_annual''] =
       [''heat_load'', ''hours_storage'', ''temperature_hot'']"
  using build_declares_five_variables [OF good_host_super_build example_run_returned]
    good_host_super_build example_run_returned
  by simp

text \<open>
  C2. When \<^verbatim>\<open>calculate_scaling_factors\<close> returns, each of the seven variables it touches
  that had no scaling factor has been given its default by exactly one assignment, and each
  that had a scaling factor has kept it, with no assignment. A second call, in the world the
  first left or in any other, returns with the block and the world unchanged.
\<close>

theorem calculate_scaling_factors_sets_absent_once:
  assumes "calculate_scaling_factors self w = (Returned, self', w')"
    and "c \<in> set scaled_vars"
  shows "(scaling_factor self c = None \<longrightarrow>
            scaling_factor self' c = map_option fst (map_of scaling_table c) \<and>
            scaling_factor self' c \<noteq> None \<and>
            length (filter (sets_factor_of c) (new_events w w')) = 1)
       \<and> (\<forall>v. scaling_factor self c = Some v \<longrightarrow>
            scaling_factor self' c = Some v \<and>
            length (filter (sets_factor_of c) (new_events w w')) = 0)
       \<and> calculate_scaling_factors self' w' = (Returned, self', w')
       \<and> calculate_scaling_factors self' w2 = (Returned, self', w2)"
proof -
  note run = assms(1) [unfolded calculate_scaling_factors_table]
  from assms(2) have mem: "c \<in> fst ` set scaling_table"
    using scaling_table_names by (metis list.set_map)
  then obtain d warning where row: "(c, d, warning) \<in> set scaling_table" by force
  from scaling_table_distinct row have mo: "map_of scaling_table c = Some (d, warning)"
    by (simp add: map_of_eq_Some_iff)
  note cnt = run_blocks_set_count [OF run, of c]
  have absent: "scaling_factor self' c = map_option fst (map_of scaling_table c) \<and>
            scaling_factor self' c \<noteq> None \<and>
            length (filter (sets_factor_of c) (new_events w w')) = 1"
    if "scaling_factor self c = None"
    using run_blocks_value [OF run scaling_table_distinct row that] cnt mem that mo by simp
  have present: "scaling_factor self' c = Some v \<and>
            length (filter (sets_factor_of c) (new_events w w')) = 0"
    if "scaling_factor self c = Some v" for v
    using run_blocks_keeps [OF run that] cnt that by simp
  have vars_same: "vars self' = vars self"
    using run_blocks_frame [OF run] by (metis block.select_convs(2) block.surjective block.update_convs(14))
  have set_after: "scaling_factor self' c' \<noteq> None" if "(c', d', b') \<in> set scaling_table" for c' d' b'
  proof (cases "scaling_factor self c'")
    case None
    from run_blocks_value [OF run scaling_table_distinct that None] show ?thesis by simp
  next
    case (Some v)
    from run_blocks_keeps [OF run Some] show ?thesis by simp
  qed
  have settled: "\<forall>row \<in> set scaling_table.
      vars self' (fst row) \<noteq> None \<and> scaling_factor self' (fst row) \<noteq> None"
  proof
    fix row assume r: "row \<in> set scaling_table"
    obtain c' d' b' where row': "row = (c', d', b')" by (cases row) auto
    from run_blocks_vars [OF run r [unfolded row']] vars_same set_after [OF r [unfolded row']] row'
    show "vars self' (fst row) \<noteq> None \<and> scaling_factor self' (fst row) \<noteq> None" by simp
  qed
  have idem: "calculate_scaling_factors self' w3 = (Returned, self', w3)" for w3
    unfolding calculate_scaling_factors_table by (rule run_blocks_fixpoint [OF settled])
  from absent present idem show ?thesis by blast
qed

theorem calculate_scaling_factors_sets_absent_once_witness:
  "calculate_scaling_factors example_block example_world =
     (Returned, fst (snd (calculate_scaling_factors example_block example_world)),
      snd (snd (calculate_scaling_factors example_block example_world)))
   \<and> ''heat_load'' \<in> set scaled_vars
   \<and> scaling_factor example_block ''heat_load'' = None
   \<and> scaling_factor (fst (snd (calculate_scaling_factors example_block example_world))) ''heat_load''
        = Some (PyFloat 1 (- 2))
   \<and> length (filter (sets_factor_of ''heat_load'')
        (new_events example_world (snd (snd (calculate_scaling_factors example_block example_world))))) = 1
   \<and> calculate_scaling_factors (fst (snd (calculate_scaling_factors example_block example_world)))
        (snd (snd (calculate_scaling_factors example_block example_world))) =
      (Returned, fst (snd (calculate_scaling_factors example_block example_world)),
        snd (snd (calculate_scaling_factors example_block example_world)))"
proof -
  have m: "''heat_load'' \<in> set scaled_vars" by (simp add: scaled_vars_def)
  have n: "scaling_factor example_block ''heat_load'' = None"
    by (simp add: example_block_no_factors)
  have t: "map_option fst (map_of scaling_table ''heat_load'') = Some (PyFloat 1 (- 2))"
    by (simp add: scaling_table_def)
  from calculate_scaling_factors_sets_absent_once [OF example_scaling_returned m] n t
    example_scaling_returned m
  show ?thesis by simp
qed

text \<open>
  C9. The defaults that \<^verbatim>\<open>calculate_scaling_factors\<close> fills in for absent scaling factors
  are 1 for \<open>hours_storage\<close>, asked for without a warning, and, each asked for with a
  warning, 1e-2 for \<open>heat_load\<close>, 1e-1 for \<open>temperature_hot\<close>, 1e-4 for \<open>heat_annual\<close>
  and \<open>heat\<close>, and 1e-3 for \<open>electricity_annual\<close> and \<open>electricity\<close>.
\<close>

theorem calculate_scaling_factors_default_values:
  assumes "calculate_scaling_factors self w = (Returned, self', w')"
  shows "(scaling_factor self ''hours_storage'' = None \<longrightarrow>
            scaling_factor self' ''hours_storage'' = Some (PyInt 1) \<and>
            Warning ''hours_storage'' \<notin> set (new_events w w'))
       \<and> (scaling_factor self ''heat_load'' = None \<longrightarrow>
            scaling_factor self' ''heat_load'' = Some (PyFloat 1 (- 2)) \<and>
            Warning ''heat_load'' \<in> set (new_events w w'))
       \<and> (scaling_factor self ''temperature_hot'' = None \<longrightarrow>
            scaling_factor self' ''temperature_hot'' = Some (PyFloat 1 (- 1)) \<and>
            Warning ''temperature_hot'' \<in> set (new_events w w'))
       \<and> (scaling_factor self ''heat_annual'' = None \<longrightarrow>
            scaling_factor self' ''heat_annual'' = Some (PyFloat 1 (- 4)) \<and>
            Warning ''heat_annual'' \<in> set (new_events w w'))
       \<and> (scaling_factor self ''heat'' = None \<longrightarrow>
            scaling_factor self' ''heat'' = Some (PyFloat 1 (- 4)) \<and>
            Warning ''heat'' \<in> set (new_events w w'))
       \<and> (scaling_factor self ''electricity_annual'' = None \<longrightarrow>
            scaling_factor self' ''electricity_annual'' = Some (PyFloat 1 (- 3)) \<and>
            Warning ''electricity_annual'' \<in> set (new_events w w'))
       \<and> (scaling_factor self ''electricity'' = None \<longrightarrow>
            scaling_factor self' ''electricity'' = Some (PyFloat 1 (- 3)) \<and>
            Warning ''electricity'' \<in> set (new_events w w'))"
proof -
  note run = assms [unfolded calculate_scaling_factors_table]
  have val: "scaling_factor self' c = Some d"
    if "(c, d, b) \<in> set scaling_table" "scaling_factor self c = None" for c d b
    using run_blocks_value [OF run scaling_table_distinct that] .
  have warn: "(Warning c \<in> set (new_events w w')) = (\<exists>d. (c, d, True) \<in> set scaling_table)"
    if "scaling_factor self c = None" for c
    using run_blocks_warning [OF run scaling_table_distinct, of c] that by simp
  have rows: "(''hours_storage'', PyInt 1, False) \<in> set scaling_table"
    "(''heat_load'', PyFloat 1 (- 2), True) \<in> set scaling_table"
    "(''temperature_hot'', PyFloat 1 (- 1), True) \<in> set scaling_table"
    "(''heat_annual'', PyFloat 1 (- 4), True) \<in> set scaling_table"
    "(''heat'', PyFloat 1 (- 4), True) \<in> set scaling_table"
    "(''electricity_annual'', PyFloat 1 (- 3), True) \<in> set scaling_table"
    "(''electricity'', PyFloat 1 (- 3), True) \<in> set scaling_table"
    by (simp_all add: scaling_table_def)
  have nowarn: "\<not> (\<exists>d. (''hours_storage'', d, True) \<in> set scaling_table)"
    by (simp add: scaling_table_def)
  have c1: "scaling_factor self ''hours_storage'' = None \<longrightarrow>
            scaling_factor self' ''hours_storage'' = Some (PyInt 1) \<and>
            Warning ''hours_storage'' \<notin> set (new_events w w')"
    using val [OF rows(1)] warn [of "''hours_storage''"] nowarn by blast
  have c2: "scaling_factor self ''heat_load'' = None \<longrightarrow>
            scaling_factor self' ''heat_load'' = Some (PyFloat 1 (- 2)) \<and>
            Warning ''heat_load'' \<in> set (new_events w w')"
    using val [OF rows(2)] warn [of "''heat_load''"] rows(2) by blast
  have c3: "scaling_factor self ''temperature_hot'' = None \<longrightarrow>
            scaling_factor self' ''temperature_hot'' = Some (PyFloat 1 (- 1)) \<and>
            Warning ''temperature_hot'' \<in> set (new_events w w')"
    using val [OF rows(3)] warn [of "''temperature_hot''"] rows(3) by blast
  have c4: "scaling_factor self ''heat_annual'' = None \<longrightarrow>
            scaling_factor self' ''heat_annual'' = Some (PyFloat 1 (- 4)) \<and>
            Warning ''heat_annual'' \<in> set (new_events w w')"
    using val [OF rows(4)] warn [of "''heat_annual''"] rows(4) by blast
  have c5: "scaling_factor self ''heat'' = None \<longrightarrow>
            scaling_factor self' ''heat'' = Some (PyFloat 1 (- 4)) \<and>
            Warning ''heat'' \<in> set (new_events w w')"
    using val [OF rows(5)] warn [of "''heat''"] rows(5) by blast
  have c6: "scaling_factor self ''electricity_annual'' = None \<longrightarrow>
            scaling_factor self' ''electricity_annual'' = Some (PyFloat 1 (- 3)) \<and>
            Warning ''electricity_annual'' \<in> set (new_events w w')"
    using val [OF rows(6)] warn [of "''electricity_annual''"] rows(6) by blast
  have c7: "scaling_factor self ''electricity'' = None \<longrightarrow>
            scaling_factor self' ''electricity'' = Some (PyFloat 1 (- 3)) \<and>
            Warning ''electricity'' \<in> set (new_events w w')"
    using val [OF rows(7)] warn [of "''electricity''"] rows(7) by blast
  from c1 c2 c3 c4 c5 c6 c7 show ?thesis by blast
qed

theorem calculate_scaling_factors_default_values_witness:
  "calculate_scaling_factors example_block example_world =
     (Returned, fst (snd (calculate_scaling_factors example_block example_world)),
      snd (snd (calculate_scaling_factors example_block example_world)))
   \<and> scaling_factor example_block = Map.empty
   \<and> map (scaling_factor (fst (snd (calculate_scaling_factors example_block example_world))))
        [''hours_storage'', ''heat_load'', ''temperature_hot'', ''heat_annual'', ''heat'',
         ''electricity_annual'', ''electricity''] =
      [Some (PyInt 1), Some (PyFloat 1 (- 2)), Some (PyFloat 1 (- 1)), Some (PyFloat 1 (- 4)),
       Some (PyFloat 1 (- 4)), Some (PyFloat 1 (- 3)), Some (PyFloat 1 (- 3))]
   \<and> Warning ''hours_storage'' \<notin> set (new_events example_world
         (snd (snd (calculate_scaling_factors example_block example_world))))
   \<and> Warning ''heat_load'' \<in> set (new_events example_world
         (snd (snd (calculate_scaling_factors example_block example_world))))"
  using calculate_scaling_factors_default_values [OF example_scaling_returned]
    example_scaling_returned example_block_no_factors
  by simp

end
